theory Spec2Isabelle
  imports Main "HOL-Library.Sublist"
begin

section \<open>Go strings\<close>

text \<open>
  Go strings are byte sequences; they are modelled as \<^typ>\<open>string\<close>. The functions of
  package \<^verbatim>\<open>strings\<close> that wrapper.go calls are written out. The only separator the
  source ever splits at is the one-byte string \<^verbatim>\<open>","\<close>, so \<open>Split\<close> takes a character.
\<close>

fun Split :: "string \<Rightarrow> char \<Rightarrow> string list" where
  "Split [] sep = [[]]"
| "Split (c # cs) sep =
     (if c = sep then [] # Split cs sep
      else (case Split cs sep of [] \<Rightarrow> [[c]] | p # ps \<Rightarrow> (c # p) # ps))"

definition HasPrefix :: "string \<Rightarrow> string \<Rightarrow> bool" where
  "HasPrefix s p = (take (length p) s = p)"

definition TrimPrefix :: "string \<Rightarrow> string \<Rightarrow> string" where
  "TrimPrefix s p = (if HasPrefix s p then drop (length p) s else s)"

fun Contains :: "string \<Rightarrow> string \<Rightarrow> bool" where
  "Contains [] substr = (substr = [])"
| "Contains (c # cs) substr = (HasPrefix (c # cs) substr \<or> Contains cs substr)"

text \<open>
  White space as \<^verbatim>\<open>unicode.IsSpace\<close> sees it, on the UTF-8 bytes of a string. In one
  byte: tab, line feed, vertical tab, form feed, carriage return and space. In two bytes:
  U+0085 and U+00A0. In three bytes: U+1680, U+2000 to U+200A, U+2028, U+2029, U+202F,
  U+205F and U+3000. A byte that does not start one of these encodings is no white space.
\<close>

definition isSpace :: "char \<Rightarrow> bool" where
  "isSpace c = (let n = (of_char c :: nat) in (9 \<le> n \<and> n \<le> 13) \<or> n = 32)"

definition isSpace2 :: "char \<Rightarrow> char \<Rightarrow> bool" where
  "isSpace2 a b = (a = CHR 0xC2 \<and> (b = CHR 0x85 \<or> b = CHR 0xA0))"

definition isSpace3 :: "char \<Rightarrow> char \<Rightarrow> char \<Rightarrow> bool" where
  "isSpace3 a b c =
     ((a = CHR 0xE1 \<and> b = CHR 0x9A \<and> c = CHR 0x80)
      \<or> (a = CHR 0xE2 \<and> b = CHR 0x80
          \<and> ((128 \<le> (of_char c :: nat) \<and> (of_char c :: nat) \<le> 138)
               \<or> c = CHR 0xA8 \<or> c = CHR 0xA9 \<or> c = CHR 0xAF))
      \<or> (a = CHR 0xE2 \<and> b = CHR 0x81 \<and> c = CHR 0x9F)
      \<or> (a = CHR 0xE3 \<and> b = CHR 0x80 \<and> c = CHR 0x80))"

text \<open>
  \<^verbatim>\<open>strings.TrimSpace\<close>: the white space runes are taken off the front, then off the
  back. \<open>TrimRightSpace\<close> works on the reversed string, so it sees the bytes of a rune
  last byte first.
\<close>

fun TrimLeftSpace :: "string \<Rightarrow> string" where
  "TrimLeftSpace (a # b # c # s) =
     (if isSpace a then TrimLeftSpace (b # c # s)
      else if isSpace2 a b then TrimLeftSpace (c # s)
      else if isSpace3 a b c then TrimLeftSpace s
      else a # b # c # s)"
| "TrimLeftSpace [a, b] =
     (if isSpace a then TrimLeftSpace [b]
      else if isSpace2 a b then []
      else [a, b])"
| "TrimLeftSpace [a] = (if isSpace a then [] else [a])"
| "TrimLeftSpace [] = []"

fun TrimRightSpace :: "string \<Rightarrow> string" where
  "TrimRightSpace (c # b # a # s) =
     (if isSpace c then TrimRightSpace (b # a # s)
      else if isSpace2 b c then TrimRightSpace (a # s)
      else if isSpace3 a b c then TrimRightSpace s
      else c # b # a # s)"
| "TrimRightSpace [c, b] =
     (if isSpace c then TrimRightSpace [b]
      else if isSpace2 b c then []
      else [c, b])"
| "TrimRightSpace [c] = (if isSpace c then [] else [c])"
| "TrimRightSpace [] = []"

definition TrimSpace :: "string \<Rightarrow> string" where
  "TrimSpace s = rev (TrimRightSpace (rev (TrimLeftSpace s)))"

fun Join :: "string list \<Rightarrow> string \<Rightarrow> string" where
  "Join [] sep = []"
| "Join [x] sep = x"
| "Join (x # y # ys) sep = x @ sep @ Join (y # ys) sep"

section \<open>Reflection: kinds, types and struct fields\<close>

datatype kind =
    Invalid | Bool | IntK | Int8 | Int16 | Int32 | Int64
  | Uint | Uint8 | Uint16 | Uint32 | Uint64 | Uintptr
  | Float32 | Float64 | Complex64 | Complex128
  | Array | Chan | Func | Interface | Map | Ptr | Slice | String | Struct
  | UnsafePointer

text \<open>The name \<^verbatim>\<open>Kind.String()\<close> prints, which \<^verbatim>\<open>%s\<close> uses.\<close>

fun Kind_String :: "kind \<Rightarrow> string" where
  "Kind_String Invalid = ''invalid''"
| "Kind_String Bool = ''bool''"
| "Kind_String IntK = ''int''"
| "Kind_String Int8 = ''int8''"
| "Kind_String Int16 = ''int16''"
| "Kind_String Int32 = ''int32''"
| "Kind_String Int64 = ''int64''"
| "Kind_String Uint = ''uint''"
| "Kind_String Uint8 = ''uint8''"
| "Kind_String Uint16 = ''uint16''"
| "Kind_String Uint32 = ''uint32''"
| "Kind_String Uint64 = ''uint64''"
| "Kind_String Uintptr = ''uintptr''"
| "Kind_String Float32 = ''float32''"
| "Kind_String Float64 = ''float64''"
| "Kind_String Complex64 = ''complex64''"
| "Kind_String Complex128 = ''complex128''"
| "Kind_String Array = ''array''"
| "Kind_String Chan = ''chan''"
| "Kind_String Func = ''func''"
| "Kind_String Interface = ''interface''"
| "Kind_String Map = ''map''"
| "Kind_String Ptr = ''ptr''"
| "Kind_String Slice = ''slice''"
| "Kind_String String = ''string''"
| "Kind_String Struct = ''struct''"
| "Kind_String UnsafePointer = ''unsafe.Pointer''"

text \<open>
  A struct field as \<^verbatim>\<open>reflect.StructField\<close> shows it: the in-language name, the type
  and the tag, the latter as the list of its \<^verbatim>\<open>key:"value"\<close> pairs in written order.
\<close>

datatype 't StructField =
  StructField (Name: string) (Type: 't) (Tag: "(string \<times> string) list")

datatype scalar =
    SBool | SInt | SInt8 | SInt16 | SInt32 | SInt64
  | SUint | SUint8 | SUint16 | SUint32 | SUint64 | SUintptr
  | SFloat32 | SFloat64 | SComplex64 | SComplex128 | SString | SUnsafePointer

datatype rtype =
    ScalarT scalar
  | ArrayT nat rtype
  | ChanT rtype
  | FuncT
  | InterfaceT
  | MapT rtype rtype
  | PtrT rtype
  | SliceT rtype
  | StructT "rtype StructField list"

fun scalar_Kind :: "scalar \<Rightarrow> kind" where
  "scalar_Kind SBool = Bool"
| "scalar_Kind SInt = IntK"
| "scalar_Kind SInt8 = Int8"
| "scalar_Kind SInt16 = Int16"
| "scalar_Kind SInt32 = Int32"
| "scalar_Kind SInt64 = Int64"
| "scalar_Kind SUint = Uint"
| "scalar_Kind SUint8 = Uint8"
| "scalar_Kind SUint16 = Uint16"
| "scalar_Kind SUint32 = Uint32"
| "scalar_Kind SUint64 = Uint64"
| "scalar_Kind SUintptr = Uintptr"
| "scalar_Kind SFloat32 = Float32"
| "scalar_Kind SFloat64 = Float64"
| "scalar_Kind SComplex64 = Complex64"
| "scalar_Kind SComplex128 = Complex128"
| "scalar_Kind SString = String"
| "scalar_Kind SUnsafePointer = UnsafePointer"

fun Kind :: "rtype \<Rightarrow> kind" where
  "Kind (ScalarT s) = scalar_Kind s"
| "Kind (ArrayT n t) = Array"
| "Kind (ChanT t) = Chan"
| "Kind FuncT = Func"
| "Kind InterfaceT = Interface"
| "Kind (MapT k v) = Map"
| "Kind (PtrT t) = Ptr"
| "Kind (SliceT t) = Slice"
| "Kind (StructT fs) = Struct"

text \<open>
  \<^verbatim>\<open>t.Elem()\<close> is only called by the source after \<^verbatim>\<open>t.Kind() == reflect.Ptr\<close>; on the
  other kinds that have an element type it returns that one, elsewhere reflect panics.
\<close>

fun Elem :: "rtype \<Rightarrow> rtype option" where
  "Elem (PtrT t) = Some t"
| "Elem (ArrayT n t) = Some t"
| "Elem (ChanT t) = Some t"
| "Elem (MapT k v) = Some v"
| "Elem (SliceT t) = Some t"
| "Elem t = None"

fun Fields :: "rtype \<Rightarrow> rtype StructField list" where
  "Fields (StructT fs) = fs"
| "Fields t = []"

text \<open>\<^verbatim>\<open>field.Tag.Get(key)\<close>: the value of the first pair with that key, else the empty string.\<close>

definition Tag_Get :: "(string \<times> string) list \<Rightarrow> string \<Rightarrow> string" where
  "Tag_Get tag key = (case map_of tag key of None \<Rightarrow> [] | Some v \<Rightarrow> v)"

section \<open>Validation errors (validator.go)\<close>

text \<open>
  What the source reads of a \<^verbatim>\<open>validator.FieldError\<close>: the results of its methods
  \<^verbatim>\<open>Field()\<close>, \<^verbatim>\<open>Tag()\<close> and \<^verbatim>\<open>Param()\<close>.
\<close>

record FieldError =
  fe_Field :: string
  fe_Tag :: string
  fe_Param :: string

text \<open>
  The errors \<^verbatim>\<open>validator.Struct\<close> returns: \<^verbatim>\<open>validator.ValidationErrors\<close>, a slice of
  field errors, or an \<^verbatim>\<open>*InvalidValidationError\<close>, kept as its message.
\<close>

datatype validator_error =
    validator_ValidationErrors "FieldError list"
  | validator_InvalidValidationError string

record ValidationError =
  Field :: string
  Message :: string

text \<open>
  A Go \<^verbatim>\<open>error\<close>: an error made by \<^verbatim>\<open>fmt.Errorf\<close> or passed through, reduced to
  its message; a run-time panic, kept apart from a returned error; and the type
  \<^verbatim>\<open>ValidationErrors\<close> of validator.go.
\<close>

datatype error =
    Error string
  | Panic string
  | ValidationErrors "ValidationError list"

definition ValidationError_Error :: "ValidationError \<Rightarrow> string" where
  "ValidationError_Error e = Field e @ '': '' @ Message e"

fun error_Error :: "error \<Rightarrow> string" where
  "error_Error (ValidationErrors e) =
     ''validation failed: '' @ Join (map ValidationError_Error e) ''; ''"
| "error_Error (Error m) = m"
| "error_Error (Panic m) = m"

definition formatFieldError :: "FieldError \<Rightarrow> string" where
  "formatFieldError fieldErr =
     (let tag = fe_Tag fieldErr in
      if tag = ''required'' then ''is required''
      else if tag = ''min'' then ''must be at least '' @ fe_Param fieldErr
      else if tag = ''max'' then ''must be at most '' @ fe_Param fieldErr
      else if tag = ''email'' then ''must be a valid email address''
      else if tag = ''url'' then ''must be a valid URL''
      else if tag = ''oneof'' then ''must be one of: '' @ fe_Param fieldErr
      else if tag = ''gte'' then ''must be greater than or equal to '' @ fe_Param fieldErr
      else if tag = ''lte'' then ''must be less than or equal to '' @ fe_Param fieldErr
      else if tag = ''gt'' then ''must be greater than '' @ fe_Param fieldErr
      else if tag = ''lt'' then ''must be less than '' @ fe_Param fieldErr
      else if tag = ''len'' then ''must be '' @ fe_Param fieldErr @ '' characters long''
      else ''failed validation: '' @ tag)"

text \<open>
  The loop of \<^verbatim>\<open>formatValidationErrors\<close> appends one entry for each field error, in
  order; an error of another type is returned as it is.
\<close>

fun formatValidationErrors_loop :: "FieldError list \<Rightarrow> ValidationError list \<Rightarrow> ValidationError list" where
  "formatValidationErrors_loop [] errors = errors"
| "formatValidationErrors_loop (fieldErr # rest) errors =
     formatValidationErrors_loop rest
       (errors @ [\<lparr> Field = fe_Field fieldErr, Message = formatFieldError fieldErr \<rparr>])"

fun formatValidationErrors :: "validator_error \<Rightarrow> error" where
  "formatValidationErrors (validator_ValidationErrors validationErrs) =
     ValidationErrors (formatValidationErrors_loop validationErrs [])"
| "formatValidationErrors (validator_InvalidValidationError m) = Error m"

section \<open>Schema derivation (wrapper.go)\<close>

text \<open>
  The values stored under a key of a property: \<^verbatim>\<open>interface{}\<close> holding a string, an
  \<^verbatim>\<open>int\<close>, a \<^verbatim>\<open>float64\<close> or a \<^verbatim>\<open>[]string\<close>. The type \<open>'f\<close> stands for float64.
\<close>

datatype 'f prop_value =
  VString string | VInt int | VFloat 'f | VStrings "string list"

type_synonym 'f property = "string \<rightharpoonup> 'f prop_value"

record 'f ToolInputSchema =
  schema_Type :: string
  Properties :: "string \<rightharpoonup> 'f property"
  Required :: "string list"

fun inferType :: "rtype \<Rightarrow> string" where
  "inferType t =
     (case Kind t of
        String \<Rightarrow> ''string''
      | IntK \<Rightarrow> ''integer'' | Int8 \<Rightarrow> ''integer'' | Int16 \<Rightarrow> ''integer''
      | Int32 \<Rightarrow> ''integer'' | Int64 \<Rightarrow> ''integer''
      | Uint \<Rightarrow> ''integer'' | Uint8 \<Rightarrow> ''integer'' | Uint16 \<Rightarrow> ''integer''
      | Uint32 \<Rightarrow> ''integer'' | Uint64 \<Rightarrow> ''integer''
      | Float32 \<Rightarrow> ''number'' | Float64 \<Rightarrow> ''number''
      | Bool \<Rightarrow> ''boolean''
      | Slice \<Rightarrow> ''array'' | Array \<Rightarrow> ''array''
      | Map \<Rightarrow> ''object'' | Struct \<Rightarrow> ''object''
      | _ \<Rightarrow> ''string'')"

fun contains :: "string list \<Rightarrow> string \<Rightarrow> bool" where
  "contains [] item = False"
| "contains (s # slice) item = (if s = item then True else contains slice item)"

subsection \<open>\<^verbatim>\<open>fmt.Sscanf(s, "%d", &i)\<close>\<close>

text \<open>
  The scanner of package \<^verbatim>\<open>fmt\<close> for the verb \<^verbatim>\<open>%d\<close> into an \<^verbatim>\<open>int\<close>: it skips leading
  white space (a line feed is an error), takes one optional sign, then the longest run
  of decimal digits, which must not be empty, and fails when the number does not fit the
  \<^verbatim>\<open>int\<close> of the platform, which is taken to have 64 bits, as on amd64 and arm64. It does not look at what follows the digits: \<^verbatim>\<open>Sscanf\<close> reports
  no error for input left over. \<open>None\<close> stands for a non-nil error.
\<close>

fun SkipSpace :: "string \<Rightarrow> string option" where
  "SkipSpace (a # b # c # s) =
     (if a = CHR 0x0A then None
      else if isSpace a then SkipSpace (b # c # s)
      else if isSpace2 a b then SkipSpace (c # s)
      else if isSpace3 a b c then SkipSpace s
      else Some (a # b # c # s))"
| "SkipSpace [a, b] =
     (if a = CHR 0x0A then None
      else if isSpace a then SkipSpace [b]
      else if isSpace2 a b then Some []
      else Some [a, b])"
| "SkipSpace [a] = (if a = CHR 0x0A then None else if isSpace a then Some [] else Some [a])"
| "SkipSpace [] = Some []"

definition isDigit :: "char \<Rightarrow> bool" where
  "isDigit c = (let n = (of_char c :: nat) in 48 \<le> n \<and> n \<le> 57)"

definition digitsValue :: "string \<Rightarrow> int" where
  "digitsValue ds = foldl (\<lambda>a c. 10 * a + (int (of_char c) - 48)) 0 ds"

definition intBits :: nat where
  "intBits = 64"

definition scanInt :: "string \<Rightarrow> int option" where
  "scanInt s =
     (case SkipSpace s of
        None \<Rightarrow> None
      | Some [] \<Rightarrow> None
      | Some (c # cs) \<Rightarrow>
          (let neg = (c = CHR ''-'');
               rest = (if c = CHR ''+'' \<or> c = CHR ''-'' then cs else c # cs);
               tok = takeWhile isDigit rest;
               i = (if neg then - digitsValue tok else digitsValue tok)
           in if tok = [] then None
              else if i < - (2 ^ (intBits - 1)) \<or> 2 ^ (intBits - 1) \<le> i then None
              else Some i))"

text \<open>
  \<^verbatim>\<open>parseNumber\<close>. The scanner for \<^verbatim>\<open>%f\<close> is a parameter \<open>scanFloat\<close>: the float64 it
  yields, or \<open>None\<close> for an error.
\<close>

definition parseNumber :: "(string \<Rightarrow> 'f option) \<Rightarrow> string \<Rightarrow> 'f prop_value" where
  "parseNumber scanFloat s =
     (case scanInt s of
        Some i \<Rightarrow> VInt i
      | None \<Rightarrow>
          (case scanFloat s of
             Some f \<Rightarrow> VFloat f
           | None \<Rightarrow> VString s))"

text \<open>
  The loop of \<^verbatim>\<open>parseJSONSchemaTag\<close> over the parts; its state is the property being
  filled, the required list behind the pointer, and the local \<^verbatim>\<open>enumValues\<close>.
\<close>

fun parseJSONSchemaTag_loop ::
  "(string \<Rightarrow> 'f option) \<Rightarrow> string list \<Rightarrow> string \<Rightarrow>
   'f property \<times> string list \<times> string list \<Rightarrow> 'f property \<times> string list \<times> string list" where
  "parseJSONSchemaTag_loop scanFloat [] fieldName st = st"
| "parseJSONSchemaTag_loop scanFloat (p # parts) fieldName (prop, required, enumValues) =
     (let part = TrimSpace p in
      if part = ''required'' then
        parseJSONSchemaTag_loop scanFloat parts fieldName
          (prop,
           if \<not> contains required fieldName then required @ [fieldName] else required,
           enumValues)
      else if HasPrefix part ''description='' then
        parseJSONSchemaTag_loop scanFloat parts fieldName
          (prop(''description'' \<mapsto> VString (TrimPrefix part ''description='')),
           required, enumValues)
      else if HasPrefix part ''enum='' then
        parseJSONSchemaTag_loop scanFloat parts fieldName
          (prop, required, enumValues @ [TrimPrefix part ''enum=''])
      else if HasPrefix part ''minimum='' then
        parseJSONSchemaTag_loop scanFloat parts fieldName
          (prop(''minimum'' \<mapsto> parseNumber scanFloat (TrimPrefix part ''minimum='')),
           required, enumValues)
      else if HasPrefix part ''maximum='' then
        parseJSONSchemaTag_loop scanFloat parts fieldName
          (prop(''maximum'' \<mapsto> parseNumber scanFloat (TrimPrefix part ''maximum='')),
           required, enumValues)
      else if HasPrefix part ''minLength='' then
        parseJSONSchemaTag_loop scanFloat parts fieldName
          (prop(''minLength'' \<mapsto> parseNumber scanFloat (TrimPrefix part ''minLength='')),
           required, enumValues)
      else if HasPrefix part ''maxLength='' then
        parseJSONSchemaTag_loop scanFloat parts fieldName
          (prop(''maxLength'' \<mapsto> parseNumber scanFloat (TrimPrefix part ''maxLength='')),
           required, enumValues)
      else parseJSONSchemaTag_loop scanFloat parts fieldName (prop, required, enumValues))"

definition parseJSONSchemaTag ::
  "(string \<Rightarrow> 'f option) \<Rightarrow> string \<Rightarrow> 'f property \<Rightarrow> string list \<Rightarrow> string \<Rightarrow>
   'f property \<times> string list" where
  "parseJSONSchemaTag scanFloat tag prop required fieldName =
     (case parseJSONSchemaTag_loop scanFloat (Split tag CHR '','') fieldName (prop, required, [])
      of (prop', required', enumValues) \<Rightarrow>
        (if length enumValues > 0 then prop'(''enum'' \<mapsto> VStrings enumValues) else prop',
         required'))"

text \<open>
  One iteration of the loop of \<^verbatim>\<open>buildSchema\<close> over the fields, on the pair of
  \<^verbatim>\<open>properties\<close> and \<^verbatim>\<open>required\<close>.
\<close>

definition buildSchema_field ::
  "(string \<Rightarrow> 'f option) \<Rightarrow> rtype StructField \<Rightarrow>
   (string \<rightharpoonup> 'f property) \<times> string list \<Rightarrow> (string \<rightharpoonup> 'f property) \<times> string list" where
  "buildSchema_field scanFloat field st =
     (case st of (properties, required) \<Rightarrow>
       (let jsonTag = Tag_Get (Tag field) ''json'' in
        if jsonTag = [] \<or> jsonTag = ''-'' then (properties, required)
        else
          (let jsonName = hd (Split jsonTag CHR '','');
               prop = [''type'' \<mapsto> VString (inferType (Type field))];
               jsonSchemaTag = Tag_Get (Tag field) ''jsonschema'';
               pr = (if jsonSchemaTag \<noteq> []
                     then parseJSONSchemaTag scanFloat jsonSchemaTag prop required jsonName
                     else (prop, required));
               validateTag = Tag_Get (Tag field) ''validate'';
               required' =
                 (if validateTag \<noteq> [] \<and> Contains validateTag ''required''
                     \<and> \<not> contains (snd pr) jsonName
                  then snd pr @ [jsonName] else snd pr)
           in (properties(jsonName \<mapsto> fst pr), required'))))"

fun buildSchema_loop ::
  "(string \<Rightarrow> 'f option) \<Rightarrow> rtype StructField list \<Rightarrow>
   (string \<rightharpoonup> 'f property) \<times> string list \<Rightarrow> (string \<rightharpoonup> 'f property) \<times> string list" where
  "buildSchema_loop scanFloat [] st = st"
| "buildSchema_loop scanFloat (field # rest) st =
     buildSchema_loop scanFloat rest (buildSchema_field scanFloat field st)"

text \<open>
  \<^verbatim>\<open>buildSchema\<close>. Its argument is the dynamic type of \<^verbatim>\<open>argsType\<close>, or \<open>None\<close> for
  the nil interface, on which \<^verbatim>\<open>reflect.TypeOf\<close> gives nil and \<^verbatim>\<open>t.Kind()\<close> panics.
  A nil slice and an empty slice are both the empty list.
\<close>

definition buildSchema ::
  "(string \<Rightarrow> 'f option) \<Rightarrow> rtype option \<Rightarrow> error + 'f ToolInputSchema" where
  "buildSchema scanFloat argsType =
     (case argsType of
        None \<Rightarrow> Inl (Panic ''invalid memory address or nil pointer dereference'')
      | Some t0 \<Rightarrow>
          (let t = (if Kind t0 = Ptr then (case Elem t0 of Some e \<Rightarrow> e | None \<Rightarrow> t0) else t0) in
           if Kind t \<noteq> Struct
           then Inl (Error (''argsType must be a struct, got '' @ Kind_String (Kind t)))
           else
             (case buildSchema_loop scanFloat (Fields t) (Map.empty, []) of
                (properties, required) \<Rightarrow>
                  Inr \<lparr> schema_Type = ''object'', Properties = properties,
                        Required = required \<rparr>)))"

subsection \<open>Names for what \<^verbatim>\<open>buildSchema\<close> reads of a field\<close>

text \<open>
  The wire name \<^verbatim>\<open>strings.Split(jsonTag, ",")[0]\<close>, the condition of the \<^verbatim>\<open>continue\<close>,
  the test \<^verbatim>\<open>part == "required"\<close> on some trimmed part of the jsonschema tag, and the
  test \<^verbatim>\<open>strings.Contains(validateTag, "required")\<close>.
\<close>

definition jsonName :: "rtype StructField \<Rightarrow> string" where
  "jsonName field = hd (Split (Tag_Get (Tag field) ''json'') CHR '','')"

definition skipped :: "rtype StructField \<Rightarrow> bool" where
  "skipped field = (Tag_Get (Tag field) ''json'' = [] \<or> Tag_Get (Tag field) ''json'' = ''-'')"

definition schema_required :: "rtype StructField \<Rightarrow> bool" where
  "schema_required field =
     (\<exists>p \<in> set (Split (Tag_Get (Tag field) ''jsonschema'') CHR '',''). TrimSpace p = ''required'')"

definition validate_required :: "rtype StructField \<Rightarrow> bool" where
  "validate_required field = Contains (Tag_Get (Tag field) ''validate'') ''required''"

text \<open>The type \<^verbatim>\<open>buildSchema\<close> examines: the element type of a pointer, else the type itself.\<close>

definition pointee :: "rtype \<Rightarrow> rtype" where
  "pointee t = (case t of PtrT e \<Rightarrow> e | _ \<Rightarrow> t)"

section \<open>Registration and the invocation pipeline (wrapper.go, cobra.go)\<close>

text \<open>
  A \<^verbatim>\<open>*mcp.CallToolResult\<close>: the texts of its content items and the is-error flag,
  as the two constructors of mcp-go that the source calls fill them.
\<close>

record CallToolResult =
  Content :: "string list"
  IsError :: bool

definition NewToolResultError :: "string \<Rightarrow> CallToolResult" where
  "NewToolResultError text = \<lparr> Content = [text], IsError = True \<rparr>"

definition NewToolResultText :: "string \<Rightarrow> CallToolResult" where
  "NewToolResultText text = \<lparr> Content = [text], IsError = False \<rparr>"

text \<open>
  The \<^verbatim>\<open>interface{}\<close> a handler returns: nil, a string (the one dynamic type the source
  asserts), or a value of any other type.
\<close>

datatype 'r iface = NilValue | StringValue string | OtherValue 'r

text \<open>
  A handler, with the effects it may have made explicit as a state \<open>'w\<close> passed
  through it: from the decoded arguments to the result and the error (by its message).
\<close>

type_synonym ('a, 'r, 'w) Handler = "'a \<Rightarrow> 'w \<Rightarrow> ('r iface \<times> string option) \<times> 'w"

type_synonym ('q, 'w) ToolHandlerFunc =
  "'q \<Rightarrow> 'w \<Rightarrow> (CallToolResult option \<times> error option) \<times> 'w"

text \<open>
  The library functions the pipeline calls are parameters: \<^verbatim>\<open>request.BindArguments\<close>
  into a fresh value of the given type (the error's message, or the decoded value),
  \<^verbatim>\<open>json.Marshal\<close> (the error's message, or the bytes), \<^verbatim>\<open>json.Unmarshal\<close> into a
  \<^verbatim>\<open>map[string]interface{}\<close> (the error's message, if any), and the \<^verbatim>\<open>%f\<close> scanner.
\<close>

record ('q, 'a, 'r, 'f) library =
  BindArguments :: "rtype \<Rightarrow> 'q \<Rightarrow> string + 'a"
  json_Marshal :: "'r iface \<Rightarrow> string + string"
  json_Unmarshal :: "string \<Rightarrow> string option"
  Sscanf_f :: "string \<Rightarrow> 'f option"

record 'f Tool =
  tool_Name :: string
  tool_Description :: string
  InputSchema :: "'f ToolInputSchema"

record ('q, 'w, 'f) ServerTool =
  Tool :: "'f Tool"
  Handler :: "('q, 'w) ToolHandlerFunc"

text \<open>The server keeps its tools in a map from their names, which \<^verbatim>\<open>ListTools\<close> returns.\<close>

record ('q, 'w, 'f) MCPServer =
  tools :: "string \<rightharpoonup> ('q, 'w, 'f) ServerTool"

definition AddTool ::
  "('q, 'w, 'f) MCPServer \<Rightarrow> 'f Tool \<Rightarrow> ('q, 'w) ToolHandlerFunc \<Rightarrow> ('q, 'w, 'f) MCPServer" where
  "AddTool s tool h = s\<lparr> tools := (tools s)(tool_Name tool \<mapsto> \<lparr> Tool = tool, Handler = h \<rparr>) \<rparr>"

definition ListTools :: "('q, 'w, 'f) MCPServer \<Rightarrow> string \<rightharpoonup> ('q, 'w, 'f) ServerTool" where
  "ListTools s = tools s"

text \<open>
  \<^verbatim>\<open>mcp.NewTool\<close> with the options \<^verbatim>\<open>Register\<close> gives it: a description and one
  required string argument \<^verbatim>\<open>input\<close>.
\<close>

definition NewTool :: "string \<Rightarrow> string \<Rightarrow> 'f Tool" where
  "NewTool name description =
     \<lparr> tool_Name = name, tool_Description = description,
       InputSchema =
         \<lparr> schema_Type = ''object'',
           Properties =
             [''input'' \<mapsto>
                [''type'' \<mapsto> VString ''string'',
                 ''description'' \<mapsto> VString ''JSON-encoded input matching the schema'']],
           Required = [''input''] \<rparr> \<rparr>"

text \<open>
  The wrapper: the server, and the validator by its method \<^verbatim>\<open>Struct\<close> (\<open>None\<close> is the
  nil error).
\<close>

record ('q, 'a, 'w, 'f) Wrapper =
  server :: "('q, 'w, 'f) MCPServer"
  validator :: "'a \<Rightarrow> validator_error option"

definition createHandler ::
  "('q, 'a, 'r, 'f) library \<Rightarrow> ('q, 'a, 'w, 'f) Wrapper \<Rightarrow> rtype option \<Rightarrow>
   ('a, 'r, 'w) Handler \<Rightarrow> ('q, 'w) ToolHandlerFunc" where
  "createHandler lib w argsType handler request world =
     (case argsType of
        None \<Rightarrow> ((None, Some (Panic ''reflect: New(nil)'')), world)
      | Some t \<Rightarrow>
     (case BindArguments lib t request of
        Inl err \<Rightarrow>
          ((Some (NewToolResultError (''failed to bind arguments: '' @ err)), None), world)
      | Inr argsValue \<Rightarrow>
     (case validator w argsValue of
        Some err \<Rightarrow>
          ((Some (NewToolResultError (error_Error (formatValidationErrors err))), None), world)
      | None \<Rightarrow>
     (case handler argsValue world of
        ((result, Some err), world') \<Rightarrow>
          ((Some (NewToolResultError (''handler error: '' @ err)), None), world')
      | ((result, None), world') \<Rightarrow>
     (case json_Marshal lib result of
        Inl err \<Rightarrow>
          ((Some (NewToolResultError (''failed to marshal result: '' @ err)), None), world')
      | Inr resultJSON \<Rightarrow>
     (case json_Unmarshal lib resultJSON of
        Some err \<Rightarrow>
          (case result of
             StringValue resultStr \<Rightarrow> ((Some (NewToolResultText resultStr), None), world')
           | _ \<Rightarrow>
             ((Some (NewToolResultError (''failed to format result: '' @ err)), None), world'))
      | None \<Rightarrow> ((Some (NewToolResultText resultJSON), None), world')))))))"

text \<open>
  \<^verbatim>\<open>Register\<close> returns the error and the wrapper, whose server \<^verbatim>\<open>AddTool\<close> has
  changed. \<^verbatim>\<open>buildSchema\<close> never returns a nil schema with a nil error, so the schema
  always replaces the one \<^verbatim>\<open>NewTool\<close> made. A panic is passed on as it is.
\<close>

definition Register ::
  "('q, 'a, 'r, 'f) library \<Rightarrow> ('q, 'a, 'w, 'f) Wrapper \<Rightarrow> string \<Rightarrow> string \<Rightarrow> rtype option \<Rightarrow>
   ('a, 'r, 'w) Handler \<Rightarrow> error option \<times> ('q, 'a, 'w, 'f) Wrapper" where
  "Register lib w name description argsType handler =
     (case buildSchema (Sscanf_f lib) argsType of
        Inl (Error err) \<Rightarrow>
          (Some (Error (''failed to build schema for tool '' @ name @ '': '' @ err)), w)
      | Inl e \<Rightarrow> (Some e, w)
      | Inr schema \<Rightarrow>
          (let tool = (NewTool name description)\<lparr> InputSchema := schema \<rparr>
           in (None,
               w\<lparr> server := AddTool (server w) tool (createHandler lib w argsType handler) \<rparr>)))"

text \<open>What the source reads of a \<^verbatim>\<open>*cobra.Command\<close>.\<close>

record Command =
  Use :: string
  Short :: string
  Long :: string

definition RegisterCobra ::
  "('q, 'a, 'r, 'f) library \<Rightarrow> ('q, 'a, 'w, 'f) Wrapper \<Rightarrow> Command \<Rightarrow> rtype option \<Rightarrow>
   ('a, 'r, 'w) Handler \<Rightarrow> error option \<times> ('q, 'a, 'w, 'f) Wrapper" where
  "RegisterCobra lib w cmd argsType handler =
     (let name = Use cmd in
      if name = [] then (Some (Error ''cobra command must have a Use field''), w)
      else
        (let description = Short cmd;
             description = (if description = [] then Long cmd else description);
             description = (if description = [] then ''Execute '' @ name @ '' command''
                            else description)
         in Register lib w name description argsType handler))"

section \<open>The libraries under the wrapper, as far as the scenarios need them\<close>

text \<open>
  The wrapper is a thin layer over go-playground/validator, mcp-go and encoding/json,
  which are not part of this repository. The theorems about the pipeline hold for any
  behaviour of these (they are the parameters \<open>library\<close> and \<open>validator\<close> above). To run
  the scenarios of the test suite, this section writes out the part of their behaviour
  that the scenarios exercise: flat structs with string, int and bool fields, and the
  rules that \<^verbatim>\<open>formatFieldError\<close> knows. What lies outside this part stays a parameter.
\<close>

subsection \<open>Decoding the arguments\<close>

text \<open>
  The values of the argument map of a request (nil, a bool, an integer, a string), and
  the value of a struct field. \<open>GZero\<close> is the zero value of a type that is not
  written out.
\<close>

datatype arg_value = ANil | ABool bool | AInt int | AString string

datatype gvalue = GString string | GInt int | GBool bool | GZero

type_synonym struct_value = "(rtype StructField \<times> gvalue) list"

fun zero :: "rtype \<Rightarrow> gvalue" where
  "zero (ScalarT SString) = GString []"
| "zero (ScalarT SInt) = GInt 0"
| "zero (ScalarT SInt64) = GInt 0"
| "zero (ScalarT SBool) = GBool False"
| "zero t = GZero"

text \<open>
  \<^verbatim>\<open>json.Unmarshal\<close> of one value into a field: null leaves the zero value, a value of
  the field's type is stored, a value of another type is an error (\<open>None\<close>).
\<close>

fun decode_value :: "rtype \<Rightarrow> arg_value \<Rightarrow> gvalue option" where
  "decode_value t ANil = Some (zero t)"
| "decode_value (ScalarT SString) (AString s) = Some (GString s)"
| "decode_value (ScalarT SBool) (ABool b) = Some (GBool b)"
| "decode_value (ScalarT SInt) (AInt i) =
     (if - (2 ^ 63) \<le> i \<and> i < 2 ^ 63 then Some (GInt i) else None)"
| "decode_value (ScalarT SInt64) (AInt i) =
     (if - (2 ^ 63) \<le> i \<and> i < 2 ^ 63 then Some (GInt i) else None)"
| "decode_value t v = None"

text \<open>
  The key of a field is the name in its json tag, or the field's own name when the tag
  gives none; a field tagged \<^verbatim>\<open>-\<close> is not decoded. Keys are matched as written. The
  message of the error is shortened to the field.
\<close>

definition decode_key :: "rtype StructField \<Rightarrow> string" where
  "decode_key f =
     (let name = hd (Split (Tag_Get (Tag f) ''json'') CHR '','')
      in if name = [] then Name f else name)"

fun decode_fields ::
  "rtype StructField list \<Rightarrow> (string \<rightharpoonup> arg_value) \<Rightarrow> string + struct_value" where
  "decode_fields [] args = Inr []"
| "decode_fields (f # fs) args =
     (case (if Tag_Get (Tag f) ''json'' = ''-'' then Some (zero (Type f))
            else (case args (decode_key f) of
                    None \<Rightarrow> Some (zero (Type f))
                  | Some v \<Rightarrow> decode_value (Type f) v))
      of None \<Rightarrow> Inl (''json: cannot unmarshal into Go struct field '' @ Name f)
       | Some g \<Rightarrow>
           (case decode_fields fs args of
              Inl err \<Rightarrow> Inl err
            | Inr vs \<Rightarrow> Inr ((f, g) # vs)))"

definition BindArguments_struct ::
  "rtype \<Rightarrow> (string \<rightharpoonup> arg_value) \<Rightarrow> string + struct_value" where
  "BindArguments_struct t args =
     (case t of
        StructT fs \<Rightarrow> decode_fields fs args
      | _ \<Rightarrow> Inl ''json: unsupported target'')"

subsection \<open>The validator\<close>

text \<open>
  A \<^verbatim>\<open>*validator.Validate\<close>: the function registered with \<^verbatim>\<open>RegisterTagNameFunc\<close>, if
  any, and the validation functions that are not written out below (\<^verbatim>\<open>email\<close>, \<^verbatim>\<open>url\<close>
  and the rest). \<^verbatim>\<open>validator.New()\<close> registers no tag name function.
\<close>

record Validate =
  tagNameFunc :: "(rtype StructField \<Rightarrow> string) option"
  otherValidations :: "string \<Rightarrow> string \<Rightarrow> gvalue \<Rightarrow> bool"

definition validator_New :: "(string \<Rightarrow> string \<Rightarrow> gvalue \<Rightarrow> bool) \<Rightarrow> Validate" where
  "validator_New others = \<lparr> tagNameFunc = None, otherValidations = others \<rparr>"

text \<open>
  The name a field error reports as \<^verbatim>\<open>Field()\<close>: the tag name function's, when there is
  one and it gives a name, else the name of the struct field.
\<close>

definition reportedName :: "Validate \<Rightarrow> rtype StructField \<Rightarrow> string" where
  "reportedName v f =
     (case tagNameFunc v of
        None \<Rightarrow> Name f
      | Some g \<Rightarrow> (if g f = [] then Name f else g f))"

fun hasValue :: "gvalue \<Rightarrow> bool" where
  "hasValue (GString s) = (s \<noteq> [])"
| "hasValue (GInt i) = (i \<noteq> 0)"
| "hasValue (GBool b) = b"
| "hasValue GZero = False"

text \<open>The number of runes of well-formed UTF-8: the bytes that are no continuation bytes.\<close>

definition RuneCount :: "string \<Rightarrow> int" where
  "RuneCount s =
     int (length (filter (\<lambda>c. \<not> (128 \<le> (of_char c :: nat) \<and> (of_char c :: nat) < 192)) s))"

text \<open>A parameter in plain decimal notation; other notations are left to the library.\<close>

definition asInt :: "string \<Rightarrow> int option" where
  "asInt param =
     (let neg = (param \<noteq> [] \<and> hd param = CHR ''-'');
          ds = (if neg then tl param else param)
      in if ds = [] \<or> \<not> list_all isDigit ds \<or> (hd ds = CHR ''0'' \<and> ds \<noteq> ''0'') then None
         else Some (if neg then - digitsValue ds else digitsValue ds))"

definition compare_rule :: "string \<Rightarrow> int \<Rightarrow> int \<Rightarrow> bool" where
  "compare_rule tag x p =
     (if tag = ''min'' \<or> tag = ''gte'' then x \<ge> p
      else if tag = ''max'' \<or> tag = ''lte'' then x \<le> p
      else if tag = ''gt'' then x > p
      else if tag = ''lt'' then x < p
      else x = p)"

text \<open>The values of a \<^verbatim>\<open>oneof\<close> parameter without quotes: its blank-separated words.\<close>

definition isBlank :: "char \<Rightarrow> bool" where
  "isBlank c = (let n = (of_char c :: nat) in n = 9 \<or> n = 10 \<or> n = 12 \<or> n = 13 \<or> n = 32)"

fun oneof_values :: "string \<Rightarrow> string \<Rightarrow> string list" where
  "oneof_values cur [] = (if cur = [] then [] else [cur])"
| "oneof_values cur (c # cs) =
     (if isBlank c then (if cur = [] then oneof_values [] cs else cur # oneof_values [] cs)
      else oneof_values (cur @ [c]) cs)"

text \<open>
  The validation functions written out: \<open>Some\<close> of the verdict, or \<open>None\<close> where the
  rule, its parameter or the kind of the value is left to \<open>otherValidations\<close>.
\<close>

definition baked_in :: "string \<Rightarrow> string \<Rightarrow> gvalue \<Rightarrow> bool option" where
  "baked_in tag param v =
     (if tag = ''required'' then Some (hasValue v)
      else if tag = ''min'' \<or> tag = ''gte'' \<or> tag = ''max'' \<or> tag = ''lte''
              \<or> tag = ''gt'' \<or> tag = ''lt'' \<or> tag = ''len'' then
        (case asInt param of
           None \<Rightarrow> None
         | Some p \<Rightarrow>
             (case v of
                GString s \<Rightarrow> Some (compare_rule tag (RuneCount s) p)
              | GInt i \<Rightarrow> Some (compare_rule tag i p)
              | _ \<Rightarrow> None))
      else if tag = ''oneof'' then
        (case v of
           GString s \<Rightarrow>
             (if CHR 0x27 \<in> set param then None else Some (s \<in> set (oneof_values [] param)))
         | _ \<Rightarrow> None)
      else None)"

definition rule_holds :: "Validate \<Rightarrow> string \<Rightarrow> string \<Rightarrow> gvalue \<Rightarrow> bool" where
  "rule_holds v tag param x =
     (case baked_in tag param x of Some b \<Rightarrow> b | None \<Rightarrow> otherValidations v tag param x)"

text \<open>
  The fields are taken to be exported ones. The rules of a field are the
  comma-separated parts of its validate tag, each a name and, after the first \<^verbatim>\<open>=\<close>, a
  parameter. They are tried in order; \<^verbatim>\<open>omitempty\<close> ends the field without an error when
  the value is the zero value; the first rule that fails gives the one error of the
  field.
\<close>

definition parse_rule :: "string \<Rightarrow> string \<times> string" where
  "parse_rule r = (takeWhile (\<lambda>c. c \<noteq> CHR ''='') r, drop 1 (dropWhile (\<lambda>c. c \<noteq> CHR ''='') r))"

fun check_rules :: "Validate \<Rightarrow> string \<Rightarrow> (string \<times> string) list \<Rightarrow> gvalue \<Rightarrow> FieldError option" where
  "check_rules v name [] x = None"
| "check_rules v name ((tag, param) # rules) x =
     (if tag = ''omitempty'' then (if hasValue x then check_rules v name rules x else None)
      else if rule_holds v tag param x then check_rules v name rules x
      else Some \<lparr> fe_Field = name, fe_Tag = tag, fe_Param = param \<rparr>)"

definition check_field :: "Validate \<Rightarrow> rtype StructField \<times> gvalue \<Rightarrow> FieldError option" where
  "check_field v fx =
     (let tag = Tag_Get (Tag (fst fx)) ''validate''
      in if tag = [] \<or> tag = ''-'' then None
         else check_rules v (reportedName v (fst fx)) (map parse_rule (Split tag CHR '','')) (snd fx))"

text \<open>The fields are all visited, in the order of declaration; no error stops the walk.\<close>

fun Struct_errors :: "Validate \<Rightarrow> struct_value \<Rightarrow> FieldError list" where
  "Struct_errors v [] = []"
| "Struct_errors v (fx # rest) =
     (case check_field v fx of
        None \<Rightarrow> Struct_errors v rest
      | Some fe \<Rightarrow> fe # Struct_errors v rest)"

definition validator_Struct :: "Validate \<Rightarrow> struct_value \<Rightarrow> validator_error option" where
  "validator_Struct v s =
     (case Struct_errors v s of
        [] \<Rightarrow> None
      | errs \<Rightarrow> Some (validator_ValidationErrors errs))"

subsection \<open>\<^verbatim>\<open>New\<close>, and the library record filled in\<close>

definition New ::
  "(string \<Rightarrow> string \<Rightarrow> gvalue \<Rightarrow> bool) \<Rightarrow> ('q, 'w, 'f) MCPServer \<Rightarrow>
   ('q, struct_value, 'w, 'f) Wrapper" where
  "New others mcpServer =
     \<lparr> server = mcpServer, validator = validator_Struct (validator_New others) \<rparr>"

text \<open>
  \<^verbatim>\<open>json.Unmarshal\<close> of bytes that \<^verbatim>\<open>json.Marshal\<close> made into a \<^verbatim>\<open>map[string]interface{}\<close>:
  an object and \<^verbatim>\<open>null\<close> are accepted, any other value is an error.
\<close>

definition json_Unmarshal_map :: "string \<Rightarrow> string option" where
  "json_Unmarshal_map data =
     (if data = ''null'' \<or> HasPrefix data ''{'' then None
      else Some (''json: cannot unmarshal '' @
                 (if HasPrefix data [CHR 0x22] then ''string''
                  else if HasPrefix data ''['' then ''array''
                  else if data = ''true'' \<or> data = ''false'' then ''bool''
                  else ''number'')
                 @ '' into Go value of type map[string]interface {}''))"

text \<open>
  \<^verbatim>\<open>json.Marshal\<close> of the nil interface gives \<^verbatim>\<open>null\<close>; for the other values it is the
  parameter \<open>marshal\<close>.
\<close>

definition go_library ::
  "('r iface \<Rightarrow> string + string) \<Rightarrow> (string \<Rightarrow> 'f option) \<Rightarrow>
   (string \<rightharpoonup> arg_value, struct_value, 'r, 'f) library" where
  "go_library marshal scanFloat =
     \<lparr> BindArguments = BindArguments_struct,
       json_Marshal = (\<lambda>result. case result of NilValue \<Rightarrow> Inr ''null'' | _ \<Rightarrow> marshal result),
       json_Unmarshal = json_Unmarshal_map,
       Sscanf_f = scanFloat \<rparr>"

subsection \<open>The argument types of the scenarios\<close>

text \<open>
  Scenario A of the specification, and \<^verbatim>\<open>TestArgs\<close> and \<^verbatim>\<open>TestResult\<close> of wrapper\_test.go.
\<close>

definition ScenarioArgs :: rtype where
  "ScenarioArgs = StructT
     [StructField ''Name'' (ScalarT SString)
        [(''json'', ''name''), (''validate'', ''required,min=3'')],
      StructField ''Age'' (ScalarT SInt)
        [(''json'', ''age''), (''jsonschema'', ''required,minimum=0,maximum=120'')]]"

definition TestArgs :: rtype where
  "TestArgs = StructT
     [StructField ''Name'' (ScalarT SString)
        [(''json'', ''name''), (''jsonschema'', ''required,description=Test name''),
         (''validate'', ''required,min=3'')],
      StructField ''Age'' (ScalarT SInt)
        [(''json'', ''age''),
         (''jsonschema'', ''required,minimum=0,maximum=120,description=Test age''),
         (''validate'', ''required,gte=0,lte=120'')],
      StructField ''Email'' (ScalarT SString)
        [(''json'', ''email''), (''jsonschema'', ''description=Optional email''),
         (''validate'', ''omitempty,email'')],
      StructField ''Category'' (ScalarT SString)
        [(''json'', ''category''),
         (''jsonschema'', ''enum=A,enum=B,enum=C,description=Category''),
         (''validate'', ''required,oneof=A B C'')]]"

text \<open>
  The fresh server of the tests, and the request that \<^verbatim>\<open>TestHandlerInvocation\<close>,
  \<^verbatim>\<open>TestHandlerValidationError\<close> and \<^verbatim>\<open>TestHandlerError\<close> send, which differ in the name.
\<close>

definition NewMCPServer :: "('q, 'w, 'f) MCPServer" where
  "NewMCPServer = \<lparr> tools = Map.empty \<rparr>"

definition test_request :: "string \<Rightarrow> string \<rightharpoonup> arg_value" where
  "test_request name =
     [''name'' \<mapsto> AString name, ''age'' \<mapsto> AInt 30, ''category'' \<mapsto> AString ''A'']"

definition TestArgs_value :: "string \<Rightarrow> int \<Rightarrow> string \<Rightarrow> string \<Rightarrow> struct_value" where
  "TestArgs_value name age email category =
     zip (Fields TestArgs) [GString name, GInt age, GString email, GString category]"

definition ScenarioArgs_value :: "string \<Rightarrow> int \<Rightarrow> struct_value" where
  "ScenarioArgs_value name age = zip (Fields ScenarioArgs) [GString name, GInt age]"

text \<open>
  A wrapper and a library for the tests: no validation function beyond those written
  out passes, no other value than nil is marshalled, no float is scanned. The state that
  handlers pass along is a counter, so that a stub can record its calls.
\<close>

definition test_wrapper ::
  "(string \<rightharpoonup> arg_value, struct_value, nat, unit) Wrapper" where
  "test_wrapper = New (\<lambda>tag param x. False) NewMCPServer"

definition test_library ::
  "(string \<rightharpoonup> arg_value, struct_value, unit, unit) library" where
  "test_library = go_library (\<lambda>result. Inl ''json: unsupported type'') (\<lambda>s. None)"

definition recording_stub :: "(struct_value, unit, nat) Handler" where
  "recording_stub args calls = ((NilValue, None), Suc calls)"

definition failing_handler :: "string \<Rightarrow> (struct_value, unit, nat) Handler" where
  "failing_handler m args calls = ((NilValue, Some m), Suc calls)"

section \<open>Properties of the string functions and of the required list\<close>

lemma contains_iff: "contains xs x \<longleftrightarrow> x \<in> set xs"
  by (induction xs) auto

lemma Split_not_Nil: "Split s sep \<noteq> []"
  by (induction s) (auto split: list.splits)

lemma HasPrefix_append: "HasPrefix (p @ s) p"
  by (simp add: HasPrefix_def)

lemma Contains_append: "Contains (pre @ sub @ post) sub"
proof (induction pre)
  case Nil
  have h: "HasPrefix (sub @ post) sub" by (simp add: HasPrefix_def)
  show ?case
  proof (cases "sub @ post")
    case Nil
    then show ?thesis by simp
  next
    case (Cons a list)
    with h show ?thesis by simp
  qed
next
  case (Cons c pre)
  then show ?case by simp
qed

lemma Contains_imp: "Contains s sub \<Longrightarrow> \<exists>pre post. s = pre @ sub @ post"
proof (induction s)
  case Nil
  then show ?case by simp
next
  case (Cons c cs)
  from Cons.prems have "HasPrefix (c # cs) sub \<or> Contains cs sub" by simp
  then show ?case
  proof
    assume "HasPrefix (c # cs) sub"
    then have "c # cs = [] @ sub @ drop (length sub) (c # cs)"
      unfolding HasPrefix_def by (metis append_Nil append_take_drop_id)
    then show ?thesis by blast
  next
    assume "Contains cs sub"
    then obtain pre post where "cs = pre @ sub @ post" using Cons.IH by blast
    then have "c # cs = (c # pre) @ sub @ post" by simp
    then show ?thesis by blast
  qed
qed

lemma Contains_iff: "Contains s sub \<longleftrightarrow> (\<exists>pre post. s = pre @ sub @ post)"
proof
  assume "Contains s sub"
  then show "\<exists>pre post. s = pre @ sub @ post" by (rule Contains_imp)
next
  assume "\<exists>pre post. s = pre @ sub @ post"
  then obtain pre post where "s = pre @ sub @ post" by blast
  then show "Contains s sub" by (simp only: Contains_append)
qed

lemma loop_required:
  "fst (snd (parseJSONSchemaTag_loop sf parts fieldName (props, required, enums))) =
     (if (\<exists>p \<in> set parts. TrimSpace p = ''required'') \<and> fieldName \<notin> set required
      then required @ [fieldName] else required)"
proof (induction parts arbitrary: props required enums)
  case Nil
  show ?case by simp
next
  case (Cons p parts)
  show ?case
    by (simp add: Let_def Cons.IH contains_iff)
qed


lemma parseJSONSchemaTag_required:
  "snd (parseJSONSchemaTag sf tag prop required fieldName) =
     (if (\<exists>p \<in> set (Split tag CHR '',''). TrimSpace p = ''required'') \<and> fieldName \<notin> set required
      then required @ [fieldName] else required)"
proof -
  obtain a b c where e: "parseJSONSchemaTag_loop sf (Split tag CHR '','') fieldName (prop, required, []) = (a, b, c)"
    by (cases "parseJSONSchemaTag_loop sf (Split tag CHR '','') fieldName (prop, required, [])") auto
  have "b = fst (snd (parseJSONSchemaTag_loop sf (Split tag CHR '','') fieldName (prop, required, [])))"
    using e by simp
  then have "b = (if (\<exists>p \<in> set (Split tag CHR '',''). TrimSpace p = ''required'') \<and> fieldName \<notin> set required
      then required @ [fieldName] else required)" by (simp only: loop_required)
  then show ?thesis by (simp add: parseJSONSchemaTag_def e)
qed




lemma TrimSpace_Nil: "TrimSpace [] = []"
  by (simp add: TrimSpace_def)

lemmas space_eval = TrimSpace_def isSpace_def isSpace2_def isSpace3_def

lemma field_skipped:
  "skipped field \<Longrightarrow> buildSchema_field sf field (ps, required) = (ps, required)"
  unfolding buildSchema_field_def skipped_def by (simp only: prod.case Let_def if_True)

lemma field_not_skipped:
  assumes "\<not> skipped field"
  shows "snd (buildSchema_field sf field (ps, required)) =
     (let r1 = (if Tag_Get (Tag field) ''jsonschema'' \<noteq> []
                then snd (parseJSONSchemaTag sf (Tag_Get (Tag field) ''jsonschema'')
                       [''type'' \<mapsto> VString (inferType (Type field))] required (jsonName field))
                else required)
      in if Tag_Get (Tag field) ''validate'' \<noteq> [] \<and> validate_required field
            \<and> \<not> contains r1 (jsonName field)
         then r1 @ [jsonName field] else r1)"
proof -
  have ns: "(Tag_Get (Tag field) ''json'' = [] \<or> Tag_Get (Tag field) ''json'' = ''-'') = False"
    using assms unfolding skipped_def by blast
  show ?thesis
    unfolding buildSchema_field_def jsonName_def validate_required_def
    by (simp only: prod.case Let_def ns if_False snd_conv split: if_splits) simp
qed

lemma field_required:
  "snd (buildSchema_field sf field (ps, required)) =
     (if \<not> skipped field \<and> (schema_required field \<or> validate_required field)
         \<and> jsonName field \<notin> set required
      then required @ [jsonName field] else required)"
proof (cases "skipped field")
  case True
  then show ?thesis by (simp add: field_skipped)
next
  case False
  have nr: "Tag_Get (Tag field) ''jsonschema'' = [] \<Longrightarrow> \<not> schema_required field"
    by (simp add: schema_required_def TrimSpace_Nil)
  have nv: "Tag_Get (Tag field) ''validate'' = [] \<Longrightarrow> \<not> validate_required field"
    by (simp add: validate_required_def)
  define r1 where "r1 = (if Tag_Get (Tag field) ''jsonschema'' \<noteq> []
                then snd (parseJSONSchemaTag sf (Tag_Get (Tag field) ''jsonschema'')
                       [''type'' \<mapsto> VString (inferType (Type field))] required (jsonName field))
                else required)"
  have r1: "r1 = (if schema_required field \<and> jsonName field \<notin> set required
                  then required @ [jsonName field] else required)"
    unfolding r1_def using nr
    by (simp only: parseJSONSchemaTag_required schema_required_def[symmetric] split: if_splits)
       blast
  have "snd (buildSchema_field sf field (ps, required)) =
     (if Tag_Get (Tag field) ''validate'' \<noteq> [] \<and> validate_required field
            \<and> \<not> contains r1 (jsonName field)
         then r1 @ [jsonName field] else r1)"
    using field_not_skipped[OF False] by (simp only: Let_def r1_def)
  also have "\<dots> = (if validate_required field \<and> jsonName field \<notin> set r1
         then r1 @ [jsonName field] else r1)"
    using nv by (auto simp add: contains_iff)
  also have "\<dots> = (if (schema_required field \<or> validate_required field)
         \<and> jsonName field \<notin> set required
      then required @ [jsonName field] else required)"
    unfolding r1 by auto
  finally show ?thesis using False by simp
qed

lemma loop_required_set:
  "set (snd (buildSchema_loop sf fs (ps, required))) =
     set required \<union> {jsonName f | f. f \<in> set fs \<and> \<not> skipped f \<and> (schema_required f \<or> validate_required f)}"
proof (induction fs arbitrary: ps required)
  case Nil
  show ?case by simp
next
  case (Cons f fs)
  obtain ps' required' where e: "buildSchema_field sf f (ps, required) = (ps', required')"
    by (cases "buildSchema_field sf f (ps, required)") auto
  have r: "required' = snd (buildSchema_field sf f (ps, required))" using e by simp
  show ?case
    by (simp only: buildSchema_loop.simps e Cons.IH) (auto simp: r field_required)
qed

lemma loop_required_distinct:
  "distinct required \<Longrightarrow> distinct (snd (buildSchema_loop sf fs (ps, required)))"
proof (induction fs arbitrary: ps required)
  case Nil
  then show ?case by simp
next
  case (Cons f fs)
  obtain ps' required' where e: "buildSchema_field sf f (ps, required) = (ps', required')"
    by (cases "buildSchema_field sf f (ps, required)") auto
  have r: "required' = snd (buildSchema_field sf f (ps, required))" using e by simp
  have "distinct required'" using Cons.prems by (simp add: r field_required)
  then show ?case by (simp only: buildSchema_loop.simps e Cons.IH)
qed

lemma buildSchema_struct:
  "buildSchema sf (Some (StructT fs)) =
     Inr \<lparr> schema_Type = ''object'',
           Properties = fst (buildSchema_loop sf fs (Map.empty, [])),
           Required = snd (buildSchema_loop sf fs (Map.empty, [])) \<rparr>"
  by (simp add: buildSchema_def split: prod.splits)

lemma buildSchema_ptr_struct:
  "buildSchema sf (Some (PtrT (StructT fs))) = buildSchema sf (Some (StructT fs))"
  by (simp add: buildSchema_def)

lemma count_list_1: "distinct xs \<Longrightarrow> x \<in> set xs \<Longrightarrow> count_list xs x = 1"
  by (induction xs) auto

section \<open>The required list of the derived schema\<close>

text \<open>
  Claim C3. For a struct type, or a pointer to one, every field that \<^verbatim>\<open>buildSchema\<close> does
  not skip and that is marked required, by a part of its jsonschema tag that is
  \<^verbatim>\<open>required\<close> once trimmed, by the substring \<^verbatim>\<open>required\<close> in its validate tag, or by both
  and however often, has its wire name in the required list of the derived schema
  exactly once.
\<close>

theorem required_exactly_once:
  assumes "t = StructT fs \<or> t = PtrT (StructT fs)"
    and "field \<in> set fs" and "\<not> skipped field"
    and "schema_required field \<or> validate_required field"
  shows "\<exists>schema. buildSchema sf (Some t) = Inr schema
           \<and> count_list (Required schema) (jsonName field) = 1"
proof -
  let ?r = "snd (buildSchema_loop sf fs (Map.empty, []))"
  have "jsonName field \<in> set ?r" using assms(2-4) by (auto simp: loop_required_set)
  moreover have "distinct ?r" by (simp add: loop_required_distinct)
  ultimately have "count_list ?r (jsonName field) = 1" by (rule count_list_1[rotated])
  then show ?thesis using assms(1) by (auto simp: buildSchema_struct buildSchema_ptr_struct)
qed

text \<open>The field of the test suite's \<^verbatim>\<open>Name\<close>, marked three times over.\<close>

theorem required_exactly_once_witness:
  "\<exists>schema. buildSchema (\<lambda>s. None :: unit option)
       (Some (StructT [StructField ''Name'' (ScalarT SString)
         [(''json'', ''name,omitempty''), (''jsonschema'', ''required, required''),
          (''validate'', ''required,min=3'')]])) = Inr schema
     \<and> count_list (Required schema) ''name'' = 1"
proof -
  let ?f = "StructField ''Name'' (ScalarT SString)
         [(''json'', ''name,omitempty''), (''jsonschema'', ''required, required''),
          (''validate'', ''required,min=3'')]"
  have s: "\<not> skipped ?f" by (simp add: skipped_def Tag_Get_def)
  have n: "jsonName ?f = ''name''" by (simp add: jsonName_def Tag_Get_def)
  have r: "schema_required ?f \<or> validate_required ?f"
    by (simp add: schema_required_def Tag_Get_def space_eval)
  show ?thesis
    using required_exactly_once[of "StructT [?f]" "[?f]" ?f "\<lambda>s. None :: unit option", OF _ _ s r]
    by (simp only: n) simp
qed

text \<open>
  Claim C4. The test on the validate tag is for the substring \<^verbatim>\<open>required\<close> of the whole
  tag. Every field that is not skipped and whose validate tag has \<^verbatim>\<open>required\<close> anywhere
  in it, be it inside another token, has its wire name in the required list. And every
  name in the required list is the wire name of a field that is not skipped and that has
  \<^verbatim>\<open>required\<close> as a part of its jsonschema tag or as a substring of its validate tag:
  nothing else about the validate tag puts a name there.
\<close>

theorem validate_substring_required:
  assumes "t = StructT fs \<or> t = PtrT (StructT fs)"
  shows "\<exists>schema. buildSchema sf (Some t) = Inr schema
     \<and> (\<forall>field \<in> set fs.
           \<not> skipped field
           \<and> (\<exists>pre post. Tag_Get (Tag field) ''validate'' = pre @ ''required'' @ post)
           \<longrightarrow> jsonName field \<in> set (Required schema))
     \<and> (\<forall>name \<in> set (Required schema).
           \<exists>f \<in> set fs. \<not> skipped f \<and> jsonName f = name
             \<and> (schema_required f
                  \<or> (\<exists>pre post. Tag_Get (Tag f) ''validate'' = pre @ ''required'' @ post)))"
proof -
  let ?r = "snd (buildSchema_loop sf fs (Map.empty, []))"
  have v: "validate_required f \<longleftrightarrow>
      (\<exists>pre post. Tag_Get (Tag f) ''validate'' = pre @ ''required'' @ post)" for f
    unfolding validate_required_def by (rule Contains_iff)
  have r: "set ?r = {jsonName f | f. f \<in> set fs \<and> \<not> skipped f
                       \<and> (schema_required f \<or> validate_required f)}"
    by (simp add: loop_required_set)
  have 1: "\<forall>field \<in> set fs.
           \<not> skipped field
           \<and> (\<exists>pre post. Tag_Get (Tag field) ''validate'' = pre @ ''required'' @ post)
           \<longrightarrow> jsonName field \<in> set ?r"
    unfolding r v by blast
  have 2: "\<forall>name \<in> set ?r.
           \<exists>f \<in> set fs. \<not> skipped f \<and> jsonName f = name
             \<and> (schema_required f
                  \<or> (\<exists>pre post. Tag_Get (Tag f) ''validate'' = pre @ ''required'' @ post))"
    unfolding r v by blast
  have "buildSchema sf (Some t) =
     Inr \<lparr> schema_Type = ''object'',
           Properties = fst (buildSchema_loop sf fs (Map.empty, [])),
           Required = ?r \<rparr>"
    using assms by (auto simp: buildSchema_struct buildSchema_ptr_struct)
  then show ?thesis using 1 2 by simp
qed

text \<open>
  The rule \<^verbatim>\<open>notrequired_x\<close> is no rule named \<^verbatim>\<open>required\<close>, and yet marks its field; the
  rule \<^verbatim>\<open>min=3\<close> marks nothing.
\<close>

theorem validate_substring_required_witness:
  "\<exists>schema. buildSchema (\<lambda>s. None :: unit option)
       (Some (StructT
         [StructField ''Email'' (ScalarT SString)
            [(''json'', ''email''), (''validate'', ''omitempty,notrequired_x'')],
          StructField ''Nick'' (ScalarT SString)
            [(''json'', ''nick''), (''validate'', ''min=3'')]])) = Inr schema
     \<and> ''email'' \<in> set (Required schema) \<and> ''nick'' \<notin> set (Required schema)"
proof -
  let ?e = "StructField ''Email'' (ScalarT SString)
            [(''json'', ''email''), (''validate'', ''omitempty,notrequired_x'')]"
  let ?n = "StructField ''Nick'' (ScalarT SString)
            [(''json'', ''nick''), (''validate'', ''min=3'')]"
  have t: "StructT [?e, ?n] = StructT [?e, ?n] \<or> StructT [?e, ?n] = PtrT (StructT [?e, ?n])"
    by simp
  obtain schema where b: "buildSchema (\<lambda>s. None :: unit option) (Some (StructT [?e, ?n])) = Inr schema"
    and f: "\<forall>field \<in> set [?e, ?n].
           \<not> skipped field
           \<and> (\<exists>pre post. Tag_Get (Tag field) ''validate'' = pre @ ''required'' @ post)
           \<longrightarrow> jsonName field \<in> set (Required schema)"
    and c: "\<forall>name \<in> set (Required schema).
           \<exists>f \<in> set [?e, ?n]. \<not> skipped f \<and> jsonName f = name
             \<and> (schema_required f
                  \<or> (\<exists>pre post. Tag_Get (Tag f) ''validate'' = pre @ ''required'' @ post))"
    using validate_substring_required[OF t, of "\<lambda>s. None :: unit option"] by blast
  have se: "\<not> skipped ?e" by (simp add: skipped_def Tag_Get_def)
  have ne: "jsonName ?e = ''email''" by (simp add: jsonName_def Tag_Get_def)
  have ve: "Tag_Get (Tag ?e) ''validate'' = ''omitempty,not'' @ ''required'' @ ''_x''"
    by (simp add: Tag_Get_def)
  have ex: "\<exists>pre post. Tag_Get (Tag ?e) ''validate'' = pre @ ''required'' @ post"
    using ve by blast
  have me: "?e \<in> set [?e, ?n]" by simp
  have "jsonName ?e \<in> set (Required schema)" using bspec[OF f me] se ex by blast
  then have 1: "''email'' \<in> set (Required schema)" by (simp only: ne)
  have sn: "\<not> schema_required ?n"
    by (simp add: schema_required_def Tag_Get_def TrimSpace_Nil)
  have cn: "\<not> Contains (Tag_Get (Tag ?n) ''validate'') ''required''"
    by (simp add: Tag_Get_def HasPrefix_def)
  have vn: "\<not> (\<exists>pre post. Tag_Get (Tag ?n) ''validate'' = pre @ ''required'' @ post)"
    using cn unfolding Contains_iff .
  have 2: "''nick'' \<notin> set (Required schema)"
  proof
    assume "''nick'' \<in> set (Required schema)"
    with c obtain f0 where m: "f0 \<in> set [?e, ?n]" and j: "jsonName f0 = ''nick''"
      and q: "schema_required f0
                \<or> (\<exists>pre post. Tag_Get (Tag f0) ''validate'' = pre @ ''required'' @ post)"
      by blast
    from m have "f0 = ?e \<or> f0 = ?n" by simp
    then show False
    proof
      assume "f0 = ?e"
      with j ne show False by simp
    next
      assume "f0 = ?n"
      with q sn vn show False by blast
    qed
  qed
  show ?thesis using b 1 2 by blast
qed

section \<open>Numbers in the jsonschema tag\<close>

text \<open>
  Claim C8. The claim wants \<^verbatim>\<open>3.5\<close> to come out as the floating-point number. The code
  yields the integer 3, whatever the \<^verbatim>\<open>%f\<close> scanner would do: \<^verbatim>\<open>Sscanf\<close> with \<^verbatim>\<open>%d\<close>
  accepts the digits before the point and reports no error for the rest, so the second
  scan is never tried. The same holds inside a tag, and a value such as \<^verbatim>\<open>12abc\<close>
  is not kept as text either.
\<close>

theorem parseNumber_integer_prefix:
  "parseNumber scanFloat ''3.5'' = VInt 3
   \<and> fst (parseJSONSchemaTag scanFloat ''required,minimum=3.5'' Map.empty [] ''age'') ''minimum''
       = Some (VInt 3)
   \<and> parseNumber scanFloat ''12abc'' = VInt 12"
  by (simp add: parseJSONSchemaTag_def space_eval HasPrefix_def TrimPrefix_def
      parseNumber_def scanInt_def isDigit_def digitsValue_def intBits_def)

section \<open>Schema derivation and registration\<close>

lemma buildSchema_pointee:
  "buildSchema sf (Some t) =
     (if Kind (pointee t) \<noteq> Struct
      then Inl (Error (''argsType must be a struct, got '' @ Kind_String (Kind (pointee t))))
      else Inr \<lparr> schema_Type = ''object'',
                 Properties = fst (buildSchema_loop sf (Fields (pointee t)) (Map.empty, [])),
                 Required = snd (buildSchema_loop sf (Fields (pointee t)) (Map.empty, [])) \<rparr>)"
  by (cases t) (simp_all add: buildSchema_def pointee_def split: prod.splits)

lemma Register_ok:
  "buildSchema (Sscanf_f lib) argsType = Inr schema \<Longrightarrow>
   Register lib w name description argsType handler =
     (None, w\<lparr> server := AddTool (server w) ((NewTool name description)\<lparr> InputSchema := schema \<rparr>)
                  (createHandler lib w argsType handler) \<rparr>)"
  by (simp add: Register_def)


lemma ListTools_AddTool:
  "ListTools (AddTool s tool h) = (ListTools s)(tool_Name tool \<mapsto> \<lparr> Tool = tool, Handler = h \<rparr>)"
  by (simp add: ListTools_def AddTool_def)

lemma tool_Name_NewTool: "tool_Name ((NewTool name description)\<lparr> InputSchema := schema \<rparr>) = name"
  by (simp add: NewTool_def)

lemma tool_Description_NewTool:
  "tool_Description ((NewTool name description)\<lparr> InputSchema := schema \<rparr>) = description"
  by (simp add: NewTool_def)

lemma Register_struct:
  assumes "Kind (pointee t) = Struct"
  shows "\<exists>schema. Register lib w name description (Some t) handler =
     (None, w\<lparr> server := AddTool (server w) ((NewTool name description)\<lparr> InputSchema := schema \<rparr>)
                  (createHandler lib w (Some t) handler) \<rparr>)"
proof -
  from assms obtain schema where b: "buildSchema (Sscanf_f lib) (Some t) = Inr schema"
    by (simp add: buildSchema_pointee)
  show ?thesis using Register_ok[OF b] by blast
qed

lemma Register_None_handler:
  assumes "Register lib w name description (Some t) handler = (None, w')"
    and "ListTools (server w') name = Some st"
  shows "Handler st = createHandler lib w (Some t) handler"
proof (cases "buildSchema (Sscanf_f lib) (Some t)")
  case (Inl e)
  then show ?thesis using assms(1) by (cases e) (simp_all add: Register_def)
next
  case (Inr schema)
  have "w' = w\<lparr> server := AddTool (server w) ((NewTool name description)\<lparr> InputSchema := schema \<rparr>)
                  (createHandler lib w (Some t) handler) \<rparr>"
    using assms(1) Register_ok[OF Inr, of w name description handler] by simp
  then show ?thesis using assms(2) by (auto simp: ListTools_AddTool tool_Name_NewTool)
qed

lemma TestArgs_Struct: "Kind (pointee TestArgs) = Struct"
  by (simp add: TestArgs_def pointee_def)

lemma ScenarioArgs_Struct: "Kind (pointee ScenarioArgs) = Struct"
  by (simp add: ScenarioArgs_def pointee_def)


lemma Register_TestArgs:
  "\<exists>w' st. Register lib w name description (Some TestArgs) handler = (None, w')
      \<and> ListTools (server w') name = Some st
      \<and> the (ListTools (server (snd (Register lib w name description (Some TestArgs) handler))) name) = st"
proof -
  obtain schema where r: "Register lib w name description (Some TestArgs) handler =
     (None, w\<lparr> server := AddTool (server w) ((NewTool name description)\<lparr> InputSchema := schema \<rparr>)
                  (createHandler lib w (Some TestArgs) handler) \<rparr>)"
    using Register_struct[OF TestArgs_Struct] by blast
  show ?thesis by (simp add: r ListTools_AddTool tool_Name_NewTool)
qed



subsection \<open>Registration from a command\<close>

lemma RegisterCobra_no_Use:
  "Use cmd = [] \<Longrightarrow>
   RegisterCobra lib w cmd argsType handler =
     (Some (Error ''cobra command must have a Use field''), w)"
  by (simp add: RegisterCobra_def)

lemma RegisterCobra_registered:
  assumes "Use cmd \<noteq> []" and "Kind (pointee t) = Struct"
  shows "fst (RegisterCobra lib w cmd (Some t) handler) = None
      \<and> (\<exists>st. ListTools (server (snd (RegisterCobra lib w cmd (Some t) handler))) (Use cmd) = Some st
            \<and> tool_Name (Tool st) = Use cmd
            \<and> tool_Description (Tool st) =
                (if Short cmd \<noteq> [] then Short cmd
                 else if Long cmd \<noteq> [] then Long cmd
                 else ''Execute '' @ Use cmd @ '' command''))"
proof -
  from assms(2) obtain schema where b: "buildSchema (Sscanf_f lib) (Some t) = Inr schema"
    by (simp add: buildSchema_pointee)
  from assms(1) show ?thesis
    by (simp add: RegisterCobra_def Let_def Register_ok[OF b] ListTools_AddTool
        tool_Name_NewTool tool_Description_NewTool)
qed

text \<open>
  Claim C9, as the code has it. With an empty \<^verbatim>\<open>Use\<close>, \<^verbatim>\<open>RegisterCobra\<close> returns an error and
  the list of tools is unchanged. Otherwise, for a struct argument type, the tool is
  registered under \<^verbatim>\<open>Use\<close>, and its description is \<^verbatim>\<open>Short\<close>, or else \<^verbatim>\<open>Long\<close>, or else the
  text \<^verbatim>\<open>Execute\<close>, the name and the word \<^verbatim>\<open>command\<close>.
\<close>

theorem RegisterCobra_description:
  "(Use cmd = [] \<longrightarrow>
      fst (RegisterCobra lib w cmd argsType handler) =
        Some (Error ''cobra command must have a Use field'')
      \<and> ListTools (server (snd (RegisterCobra lib w cmd argsType handler))) = ListTools (server w))
   \<and> (Use cmd \<noteq> [] \<and> Kind (pointee t) = Struct \<longrightarrow>
      fst (RegisterCobra lib w cmd (Some t) handler) = None
      \<and> (\<exists>st. ListTools (server (snd (RegisterCobra lib w cmd (Some t) handler))) (Use cmd) = Some st
            \<and> tool_Name (Tool st) = Use cmd
            \<and> tool_Description (Tool st) =
                (if Short cmd \<noteq> [] then Short cmd
                 else if Long cmd \<noteq> [] then Long cmd
                 else ''Execute '' @ Use cmd @ '' command'')))"
  using RegisterCobra_registered[of cmd t lib w handler]
  by (simp add: RegisterCobra_no_Use)

text \<open>The command of \<^verbatim>\<open>TestRegisterCobraNoUse\<close>, and one with a name and no description.\<close>

theorem RegisterCobra_description_witness:
  "fst (RegisterCobra test_library test_wrapper
          \<lparr> Use = [], Short = ''Missing Use field'', Long = [] \<rparr> (Some TestArgs) recording_stub)
     = Some (Error ''cobra command must have a Use field'')
   \<and> ListTools (server (snd (RegisterCobra test_library test_wrapper
          \<lparr> Use = [], Short = ''Missing Use field'', Long = [] \<rparr> (Some TestArgs) recording_stub)))
     = ListTools (server test_wrapper)
   \<and> (\<exists>st. ListTools (server (snd (RegisterCobra test_library test_wrapper
          \<lparr> Use = ''test-cmd'', Short = [], Long = [] \<rparr> (Some TestArgs) recording_stub))) ''test-cmd''
         = Some st
       \<and> tool_Description (Tool st) = ''Execute test-cmd command'')"
  using RegisterCobra_description[of "\<lparr> Use = [], Short = ''Missing Use field'', Long = [] \<rparr>"
          test_library test_wrapper "Some TestArgs" recording_stub TestArgs]
        RegisterCobra_description[of "\<lparr> Use = ''test-cmd'', Short = [], Long = [] \<rparr>"
          test_library test_wrapper "Some TestArgs" recording_stub TestArgs]
  by (auto simp add: TestArgs_Struct)

text \<open>
  The default the claim gives, \<^verbatim>\<open>Execute\<close> and the name alone, is not the description
  that the code registers for a command named \<^verbatim>\<open>greet\<close> with no description.
\<close>

theorem default_description_counterexample:
  "tool_Description (Tool (the (ListTools (server (snd (RegisterCobra test_library test_wrapper
          \<lparr> Use = ''greet'', Short = [], Long = [] \<rparr> (Some TestArgs) recording_stub))) ''greet'')))
     \<noteq> ''Execute greet''"
  using RegisterCobra_registered[of "\<lparr> Use = ''greet'', Short = [], Long = [] \<rparr>" TestArgs
          test_library test_wrapper recording_stub]
  by (auto simp add: TestArgs_Struct)

section \<open>The invocation pipeline\<close>

lemma createHandler_bind_fails:
  "BindArguments lib t request = Inl err \<Longrightarrow>
   createHandler lib w (Some t) handler request world =
     ((Some (NewToolResultError (''failed to bind arguments: '' @ err)), None), world)"
  by (simp add: createHandler_def)

lemma createHandler_validation_fails:
  "BindArguments lib t request = Inr argsValue \<Longrightarrow> validator w argsValue = Some verr \<Longrightarrow>
   createHandler lib w (Some t) handler request world =
     ((Some (NewToolResultError (error_Error (formatValidationErrors verr))), None), world)"
  by (simp add: createHandler_def)

lemma test_library_simps:
  "BindArguments test_library = BindArguments_struct"
  "json_Marshal test_library NilValue = Inr ''null''"
  "json_Unmarshal test_library ''null'' = None"
  by (simp_all add: test_library_def go_library_def json_Unmarshal_map_def)

lemma test_wrapper_validator:
  "validator test_wrapper = validator_Struct (validator_New (\<lambda>tag param x. False))"
  by (simp add: test_wrapper_def New_def)

subsection \<open>The scenarios, decoded and validated\<close>

lemma decode_test_request:
  "BindArguments_struct TestArgs (test_request name) = Inr (TestArgs_value name 30 [] ''A'')"
  by (simp add: BindArguments_struct_def TestArgs_def test_request_def TestArgs_value_def
      decode_key_def Tag_Get_def)

lemma decode_scenario:
  "BindArguments_struct ScenarioArgs [''name'' \<mapsto> AString name, ''age'' \<mapsto> AInt 30]
     = Inr (ScenarioArgs_value name 30)"
  by (simp add: BindArguments_struct_def ScenarioArgs_def ScenarioArgs_value_def
      decode_key_def Tag_Get_def)

lemmas validator_eval =
  validator_Struct_def check_field_def parse_rule_def baked_in_def rule_holds_def
  validator_New_def reportedName_def Tag_Get_def asInt_def isDigit_def digitsValue_def
  compare_rule_def RuneCount_def isBlank_def

lemma validate_scenario_Al:
  "validator_Struct (validator_New others) (ScenarioArgs_value ''Al'' 30) =
     Some (validator_ValidationErrors [\<lparr> fe_Field = ''Name'', fe_Tag = ''min'', fe_Param = ''3'' \<rparr>])"
  by (simp add: ScenarioArgs_def ScenarioArgs_value_def validator_eval)

lemma validate_scenario_Alice:
  "validator_Struct (validator_New others) (ScenarioArgs_value ''Alice'' 30) = None"
  by (simp add: ScenarioArgs_def ScenarioArgs_value_def validator_eval)

lemma validate_test_AB:
  "validator_Struct (validator_New others) (TestArgs_value ''AB'' 30 [] ''A'') =
     Some (validator_ValidationErrors [\<lparr> fe_Field = ''Name'', fe_Tag = ''min'', fe_Param = ''3'' \<rparr>])"
  by (simp add: TestArgs_def TestArgs_value_def validator_eval)

lemma validate_test_valid:
  "validator_Struct (validator_New others) (TestArgs_value ''ValidName'' 30 [] ''A'') = None"
  by (simp add: TestArgs_def TestArgs_value_def validator_eval)

lemma validate_scenario_B:
  "validator_Struct (validator_New others) (TestArgs_value ''Dave'' 150 [] ''D'') =
     Some (validator_ValidationErrors
       [\<lparr> fe_Field = ''Age'', fe_Tag = ''lte'', fe_Param = ''120'' \<rparr>,
        \<lparr> fe_Field = ''Category'', fe_Tag = ''oneof'', fe_Param = ''A B C'' \<rparr>])"
  by (simp add: TestArgs_def TestArgs_value_def validator_eval)

lemma format_scenario_B:
  "error_Error (formatValidationErrors (validator_ValidationErrors
       [\<lparr> fe_Field = ''Age'', fe_Tag = ''lte'', fe_Param = ''120'' \<rparr>,
        \<lparr> fe_Field = ''Category'', fe_Tag = ''oneof'', fe_Param = ''A B C'' \<rparr>])) =
   ''validation failed: Age: must be less than or equal to 120; Category: must be one of: A B C''"
  by (simp add: formatFieldError_def ValidationError_Error_def)

subsection \<open>Failures before the handler\<close>

text \<open>
  Claim C1. For a tool that \<^verbatim>\<open>Register\<close> has registered, an invocation whose arguments do
  not decode, or whose decoded value the validator rejects, returns an error result and
  a nil error, and leaves the state that handlers act on as it was. The outcome is the
  same whichever handler is registered: the handler is not called.
\<close>

theorem fail_fast:
  assumes "Register lib w name description (Some t) handler = (None, w')"
    and "ListTools (server w') name = Some st"
    and "BindArguments lib t request = Inl err
         \<or> (\<exists>argsValue verr. BindArguments lib t request = Inr argsValue
               \<and> validator w argsValue = Some verr)"
  shows "(\<exists>msg. Handler st request world =
                  ((Some \<lparr> Content = [msg], IsError = True \<rparr>, None), world))
         \<and> (\<forall>other. createHandler lib w (Some t) other request world = Handler st request world)"
proof -
  have h: "Handler st = createHandler lib w (Some t) handler"
    using assms(1,2) by (rule Register_None_handler)
  from assms(3) show ?thesis
  proof
    assume "BindArguments lib t request = Inl err"
    then show ?thesis by (auto simp add: h createHandler_bind_fails NewToolResultError_def)
  next
    assume "\<exists>argsValue verr. BindArguments lib t request = Inr argsValue
               \<and> validator w argsValue = Some verr"
    then obtain argsValue verr where "BindArguments lib t request = Inr argsValue"
      and "validator w argsValue = Some verr" by blast
    then show ?thesis by (auto simp add: h createHandler_validation_fails NewToolResultError_def)
  qed
qed

text \<open>
  The request of \<^verbatim>\<open>TestHandlerValidationError\<close>, with a stub that counts its calls: the
  count stays at zero.
\<close>

theorem fail_fast_witness:
  "\<exists>msg. Handler (the (ListTools (server (snd (Register test_library test_wrapper ''test-tool''
             ''Test tool'' (Some TestArgs) recording_stub))) ''test-tool''))
       (test_request ''AB'') 0 = ((Some \<lparr> Content = [msg], IsError = True \<rparr>, None), 0)"
proof -
  obtain w' st where r: "Register test_library test_wrapper ''test-tool'' ''Test tool''
        (Some TestArgs) recording_stub = (None, w')"
    and l: "ListTools (server w') ''test-tool'' = Some st"
    and t: "the (ListTools (server (snd (Register test_library test_wrapper ''test-tool''
             ''Test tool'' (Some TestArgs) recording_stub))) ''test-tool'') = st"
    using Register_TestArgs by blast
  have c: "BindArguments test_library TestArgs (test_request ''AB'') = Inl []
       \<or> (\<exists>argsValue verr. BindArguments test_library TestArgs (test_request ''AB'') = Inr argsValue
               \<and> validator test_wrapper argsValue = Some verr)"
    by (simp add: test_library_simps decode_test_request test_wrapper_validator validate_test_AB)
  show ?thesis using fail_fast[OF r l c, of 0] unfolding t by blast
qed

subsection \<open>Errors of the handler\<close>

text \<open>
  Claim C5. When decoding and validation pass and the handler returns an error with the
  message \<open>m\<close>, the invocation returns the nil error and a result that has the is-error
  flag and the one text \<^verbatim>\<open>handler error: \<close> followed by \<open>m\<close>.
\<close>

theorem handler_error_reported:
  assumes "Register lib w name description (Some t) handler = (None, w')"
    and "ListTools (server w') name = Some st"
    and "BindArguments lib t request = Inr argsValue"
    and "validator w argsValue = None"
    and "handler argsValue world = ((result, Some m), world')"
  shows "Handler st request world =
           ((Some \<lparr> Content = [''handler error: '' @ m], IsError = True \<rparr>, None), world')"
proof -
  have h: "Handler st = createHandler lib w (Some t) handler"
    using assms(1,2) by (rule Register_None_handler)
  show ?thesis
    using assms(3,4,5) by (simp add: h createHandler_def NewToolResultError_def)
qed

text \<open>A handler that fails with \<^verbatim>\<open>division by zero\<close>, as the one of the example does.\<close>

theorem handler_error_reported_witness:
  "Handler (the (ListTools (server (snd (Register test_library test_wrapper ''calculate''
             ''Perform basic arithmetic operations'' (Some TestArgs)
             (failing_handler ''division by zero'')))) ''calculate''))
       (test_request ''ValidName'') 0 =
     ((Some \<lparr> Content = [''handler error: division by zero''], IsError = True \<rparr>, None), 1)"
proof -
  obtain w' st where r: "Register test_library test_wrapper ''calculate''
             ''Perform basic arithmetic operations'' (Some TestArgs)
             (failing_handler ''division by zero'') = (None, w')"
    and l: "ListTools (server w') ''calculate'' = Some st"
    and t: "the (ListTools (server (snd (Register test_library test_wrapper ''calculate''
             ''Perform basic arithmetic operations'' (Some TestArgs)
             (failing_handler ''division by zero'')))) ''calculate'') = st"
    using Register_TestArgs by blast
  have d: "BindArguments test_library TestArgs (test_request ''ValidName'')
             = Inr (TestArgs_value ''ValidName'' 30 [] ''A'')"
    by (simp add: test_library_simps decode_test_request)
  have v: "validator test_wrapper (TestArgs_value ''ValidName'' 30 [] ''A'') = None"
    by (simp add: test_wrapper_validator validate_test_valid)
  have h: "failing_handler ''division by zero'' (TestArgs_value ''ValidName'' 30 [] ''A'') 0
             = ((NilValue, Some ''division by zero''), 1)"
    by (simp add: failing_handler_def)
  have "Handler st (test_request ''ValidName'') 0 =
     ((Some \<lparr> Content = [''handler error: '' @ ''division by zero''], IsError = True \<rparr>, None), 1)"
    by (rule handler_error_reported[where handler = "failing_handler ''division by zero''"
          and world = 0 and world' = 1 and m = "''division by zero''" and result = NilValue,
          OF r l d v h])
  then have "Handler st (test_request ''ValidName'') 0 =
     ((Some \<lparr> Content = [''handler error: division by zero''], IsError = True \<rparr>, None), 1)"
    by simp
  then show ?thesis unfolding t .
qed

subsection \<open>A nil result\<close>

text \<open>
  Claim C10. When the handler returns the nil value and the nil error, and
  \<^verbatim>\<open>json.Marshal\<close> of nil is \<^verbatim>\<open>null\<close>, which \<^verbatim>\<open>json.Unmarshal\<close> accepts for a map, the
  invocation returns a result without the is-error flag whose one text is \<^verbatim>\<open>null\<close>.
\<close>

theorem nil_result_is_null:
  assumes "Register lib w name description (Some t) handler = (None, w')"
    and "ListTools (server w') name = Some st"
    and "BindArguments lib t request = Inr argsValue"
    and "validator w argsValue = None"
    and "handler argsValue world = ((NilValue, None), world')"
    and "json_Marshal lib NilValue = Inr ''null''"
    and "json_Unmarshal lib ''null'' = None"
  shows "Handler st request world =
           ((Some \<lparr> Content = [''null''], IsError = False \<rparr>, None), world')"
proof -
  have h: "Handler st = createHandler lib w (Some t) handler"
    using assms(1,2) by (rule Register_None_handler)
  show ?thesis
    using assms(3,4,5,6,7) by (simp add: h createHandler_def NewToolResultText_def)
qed

text \<open>The stub returns nil and nil; it has been called once.\<close>

theorem nil_result_is_null_witness:
  "Handler (the (ListTools (server (snd (Register test_library test_wrapper ''test-tool''
             ''Test tool'' (Some TestArgs) recording_stub))) ''test-tool''))
       (test_request ''ValidName'') 0 =
     ((Some \<lparr> Content = [''null''], IsError = False \<rparr>, None), 1)"
proof -
  obtain w' st where r: "Register test_library test_wrapper ''test-tool'' ''Test tool''
        (Some TestArgs) recording_stub = (None, w')"
    and l: "ListTools (server w') ''test-tool'' = Some st"
    and t: "the (ListTools (server (snd (Register test_library test_wrapper ''test-tool''
             ''Test tool'' (Some TestArgs) recording_stub))) ''test-tool'') = st"
    using Register_TestArgs by blast
  have d: "BindArguments test_library TestArgs (test_request ''ValidName'')
             = Inr (TestArgs_value ''ValidName'' 30 [] ''A'')"
    by (simp add: test_library_simps decode_test_request)
  have v: "validator test_wrapper (TestArgs_value ''ValidName'' 30 [] ''A'') = None"
    by (simp add: test_wrapper_validator validate_test_valid)
  have h: "recording_stub (TestArgs_value ''ValidName'' 30 [] ''A'') 0 = ((NilValue, None), 1)"
    by (simp add: recording_stub_def)
  have "Handler st (test_request ''ValidName'') 0 =
     ((Some \<lparr> Content = [''null''], IsError = False \<rparr>, None), 1)"
    by (rule nil_result_is_null[where handler = recording_stub and world = 0 and world' = 1,
          OF r l d v h test_library_simps(2) test_library_simps(3)])
  then show ?thesis unfolding t .
qed

section \<open>Validation errors\<close>




text \<open>
  Claim C7, as the code has it. For the argument type of Scenario A, the arguments with
  the name \<^verbatim>\<open>Al\<close> decode, and validation reports one field error, for the rule \<^verbatim>\<open>min\<close> with
  the parameter 3. It is addressed to \<^verbatim>\<open>Name\<close>, the name of the struct field: \<^verbatim>\<open>New\<close> makes
  the validator with \<^verbatim>\<open>validator.New()\<close> and registers no tag name function. The message
  is \<^verbatim>\<open>must be at least 3\<close>, and the invocation returns the error result
  \<^verbatim>\<open>validation failed: Name: must be at least 3\<close>. With the name \<^verbatim>\<open>Alice\<close> validation
  reports nothing.
\<close>

theorem scenario_A_in_language_name:
  "BindArguments (go_library marshal scanFloat) ScenarioArgs
       [''name'' \<mapsto> AString ''Al'', ''age'' \<mapsto> AInt 30] = Inr (ScenarioArgs_value ''Al'' 30)
   \<and> validator (New others mcpServer) (ScenarioArgs_value ''Al'' 30) =
       Some (validator_ValidationErrors
              [\<lparr> fe_Field = ''Name'', fe_Tag = ''min'', fe_Param = ''3'' \<rparr>])
   \<and> formatValidationErrors (validator_ValidationErrors
              [\<lparr> fe_Field = ''Name'', fe_Tag = ''min'', fe_Param = ''3'' \<rparr>]) =
       ValidationErrors [\<lparr> Field = ''Name'', Message = ''must be at least 3'' \<rparr>]
   \<and> createHandler (go_library marshal scanFloat) (New others mcpServer) (Some ScenarioArgs) handler
       [''name'' \<mapsto> AString ''Al'', ''age'' \<mapsto> AInt 30] world =
       ((Some (NewToolResultError ''validation failed: Name: must be at least 3''), None), world)
   \<and> BindArguments (go_library marshal scanFloat) ScenarioArgs
       [''name'' \<mapsto> AString ''Alice'', ''age'' \<mapsto> AInt 30] = Inr (ScenarioArgs_value ''Alice'' 30)
   \<and> validator (New others mcpServer) (ScenarioArgs_value ''Alice'' 30) = None"
proof -
  have b: "BindArguments (go_library marshal scanFloat) = BindArguments_struct"
    by (simp add: go_library_def)
  have v: "validator (New others mcpServer) = validator_Struct (validator_New others)"
    by (simp add: New_def)
  have f: "formatValidationErrors (validator_ValidationErrors
              [\<lparr> fe_Field = ''Name'', fe_Tag = ''min'', fe_Param = ''3'' \<rparr>]) =
       ValidationErrors [\<lparr> Field = ''Name'', Message = ''must be at least 3'' \<rparr>]"
    by (simp add: formatFieldError_def)
  have c: "createHandler (go_library marshal scanFloat) (New others mcpServer) (Some ScenarioArgs) handler
       [''name'' \<mapsto> AString ''Al'', ''age'' \<mapsto> AInt 30] world =
       ((Some (NewToolResultError ''validation failed: Name: must be at least 3''), None), world)"
    by (simp add: createHandler_def b v decode_scenario validate_scenario_Al
        formatFieldError_def ValidationError_Error_def)
  show ?thesis
    by (simp only: b v decode_scenario validate_scenario_Al validate_scenario_Alice f c)
qed

text \<open>The violation is not addressed to the wire name \<^verbatim>\<open>name\<close>.\<close>

theorem wire_name_counterexample:
  "validator test_wrapper (ScenarioArgs_value ''Al'' 30) =
       Some (validator_ValidationErrors
              [\<lparr> fe_Field = ''Name'', fe_Tag = ''min'', fe_Param = ''3'' \<rparr>])
   \<and> formatValidationErrors (validator_ValidationErrors
              [\<lparr> fe_Field = ''Name'', fe_Tag = ''min'', fe_Param = ''3'' \<rparr>])
       \<noteq> ValidationErrors [\<lparr> Field = ''name'', Message = ''must be at least 3'' \<rparr>]"
  by (simp add: test_wrapper_validator validate_scenario_Al formatFieldError_def)

end
